theory Spec2Isabelle
  imports Complex_Main "HOL-Library.Word" "HOL-Library.Log_Nat"
begin

unbundle bit_operations_syntax

section \<open>The entity layer of the drone network simulator\<close>

text \<open>
  A shallow embedding of \<^verbatim>\<open>src/entities/uav_entities.py\<close>. Time steps and
  identifiers are integers. The floating-point numbers of the simulator (coordinates,
  speeds, energies, times in seconds) are real numbers; the geometry and the
  comparisons of times are computed exactly, and the energy ledger, whose totals
  come out of separate chains of floating-point operations, rounds every operation
  to the nearest double (\<open>fl\<close>). Objects that are shared and mutated (packets) live in
  a store indexed by their address; a buffer is a list of addresses. Exceptions and
  \<^verbatim>\<open>exit(1)\<close> are values of type \<open>error\<close>.
\<close>

subsection \<open>Python runtime: errors, indexing, substring test, built-in hash\<close>

datatype error = IndexError | TypeError | ZeroDivisionError | SystemExit int

text \<open>\<^verbatim>\<open>xs[i]\<close>: a negative index counts from the end, out of range raises.\<close>

definition py_index :: "'a list \<Rightarrow> int \<Rightarrow> error + 'a" where
  "py_index xs i =
     (if 0 \<le> i \<and> i < int (length xs) then Inr (xs ! nat i)
      else if i < 0 \<and> - int (length xs) \<le> i then Inr (xs ! nat (int (length xs) + i))
      else Inl IndexError)"

text \<open>\<^verbatim>\<open>s.startswith(sub)\<close> and the substring test \<^verbatim>\<open>sub in s\<close> of Python strings.\<close>

fun startswith :: "string \<Rightarrow> string \<Rightarrow> bool" where
  "startswith s [] = True"
| "startswith [] (c # sub) = False"
| "startswith (a # s) (c # sub) = (a = c \<and> startswith s sub)"

fun str_contains :: "string \<Rightarrow> string \<Rightarrow> bool" where
  "str_contains [] sub = (sub = [])"
| "str_contains (a # s) sub = (startswith (a # s) sub \<or> str_contains s sub)"

text \<open>
  The built-in \<^verbatim>\<open>hash\<close> of CPython (3.8 and later, 64-bit): numbers are reduced
  modulo the Mersenne prime \<open>2^61 - 1\<close> (a dyadic fraction \<open>m / 2^k\<close> through the
  inverse of \<open>2^k\<close>, which is a power of \<open>2^60\<close>), and a tuple combines the hashes of
  its items in the xxHash style on unsigned 64-bit words. A real number that is no
  double (more than 1074 binary places) is no Python value; the model is only meant
  on the others.
\<close>

definition PyHASH_MODULUS :: int where
  "PyHASH_MODULUS = 2 ^ 61 - 1"

definition hash_int :: "int \<Rightarrow> int" where
  "hash_int n =
     (let h = \<bar>n\<bar> mod PyHASH_MODULUS;
          r = (if n < 0 then - h else h)
      in if r = - 1 then - 2 else r)"

fun dyadic_exponent :: "nat \<Rightarrow> real \<Rightarrow> nat" where
  "dyadic_exponent 0 x = 0"
| "dyadic_exponent (Suc fuel) x =
     (if x = of_int \<lfloor>x\<rfloor> then 0 else Suc (dyadic_exponent fuel (2 * x)))"

definition hash_number :: "real \<Rightarrow> int" where
  "hash_number x =
     (if x = of_int \<lfloor>x\<rfloor> then hash_int \<lfloor>x\<rfloor>
      else
       (let k = dyadic_exponent 1074 \<bar>x\<bar>;
            m = \<lfloor>\<bar>x\<bar> * 2 ^ k\<rfloor>;
            h = (m * 2 ^ ((60 * k) mod 61)) mod PyHASH_MODULUS;
            r = (if x < 0 then - h else h)
        in if r = - 1 then - 2 else r))"

definition XXPRIME_1 :: "64 word" where
  "XXPRIME_1 = 11400714785074694791"

definition XXPRIME_2 :: "64 word" where
  "XXPRIME_2 = 14029467366897019727"

definition XXPRIME_5 :: "64 word" where
  "XXPRIME_5 = 2870177450012600261"

definition XXROTATE :: "64 word \<Rightarrow> 64 word" where
  "XXROTATE x = (push_bit 31 x OR drop_bit 33 x)"

fun tuplehash_loop :: "64 word \<Rightarrow> int list \<Rightarrow> 64 word" where
  "tuplehash_loop acc [] = acc"
| "tuplehash_loop acc (lane # lanes) =
     tuplehash_loop (XXROTATE (acc + word_of_int lane * XXPRIME_2) * XXPRIME_1) lanes"

text \<open>\<open>tuplehash\<close> takes the hashes of the tuple's items.\<close>

definition tuplehash :: "int list \<Rightarrow> int" where
  "tuplehash lanes =
     (let acc = tuplehash_loop XXPRIME_5 lanes
                + (word_of_nat (length lanes) XOR (XXPRIME_5 XOR 3527539))
      in if acc = - 1 then 1546275796 else sint acc)"

text \<open>
  Arithmetic on doubles (IEEE 754 binary64, the \<^verbatim>\<open>float\<close> of Python): the exact result
  is rounded to the nearest number with 53 significant bits, a tie to the one with an
  even last bit. \<open>binade x\<close> is the exponent \<open>e\<close> with \<open>2^e \<le> |x| < 2^(e+1)\<close>, read off
  the bit length of the integer part (of the integer part of \<open>1/|x|\<close> below 1); below
  \<open>2^-1022\<close> the spacing stays that of the subnormal numbers. Overflow to infinity
  (results of magnitude \<open>2^1024\<close> and more) is outside the model.
\<close>

definition binade :: "real \<Rightarrow> int" where
  "binade x =
     (if 1 \<le> \<bar>x\<bar> then bitlen \<lfloor>\<bar>x\<bar>\<rfloor> - 1
      else - bitlen (\<lceil>1 / \<bar>x\<bar>\<rceil> - 1))"

definition round_half_even :: "real \<Rightarrow> int" where
  "round_half_even y =
     (if y - of_int \<lfloor>y\<rfloor> < 1 / 2 then \<lfloor>y\<rfloor>
      else if 1 / 2 < y - of_int \<lfloor>y\<rfloor> then \<lfloor>y\<rfloor> + 1
      else if even \<lfloor>y\<rfloor> then \<lfloor>y\<rfloor> else \<lfloor>y\<rfloor> + 1)"

definition ulp :: "real \<Rightarrow> real" where
  "ulp x = 2 powi (max (binade x) (- 1022) - 52)"

definition fl :: "real \<Rightarrow> real" where
  "fl x = (if x = 0 then 0 else of_int (round_half_even (x / ulp x)) * ulp x)"

subsection \<open>Entity, Event\<close>

type_synonym coords = "real \<times> real"

record Entity =
  "identifier" :: int
  coords :: coords

text \<open>
  \<^verbatim>\<open>Entity.__eq__(self, other)\<close>. Every subclass instance is an \<open>Entity\<close> scheme;
  \<open>None\<close> stands for an \<^verbatim>\<open>other\<close> that is no instance of \<^verbatim>\<open>Entity\<close>.
\<close>

definition Entity_eq :: "'a Entity_scheme \<Rightarrow> 'b Entity_scheme option \<Rightarrow> bool" where
  "Entity_eq self other =
     (case other of
        None \<Rightarrow> False
      | Some ent \<Rightarrow> identifier ent = identifier self)"

text \<open>\<^verbatim>\<open>Entity.__hash__\<close>: \<^verbatim>\<open>hash((self.identifier, self.coords))\<close>.\<close>

definition Entity_hash :: "'a Entity_scheme \<Rightarrow> int" where
  "Entity_hash self =
     tuplehash [hash_int (identifier self),
                tuplehash [hash_number (fst (coords self)), hash_number (snd (coords self))]]"

record Event = Entity +
  current_time :: int
  deadline :: int

record Metrics =
  events :: "Event set"
  drones_packets :: "nat set"
  all_data_packets_in_simulation :: int
  events_not_listened :: "Event set"
  drones_packets_to_depot :: "(nat \<times> int) set"
  drones_packets_to_depot_list :: "(nat \<times> int) list"
  time_on_mission :: int
  time_on_active_routing :: int

text \<open>
  The simulation object every entity refers to. \<open>routing_algorithm_name\<close> is
  \<^verbatim>\<open>simulator.routing_algorithm.name\<close>, \<open>drones\<close> the identifiers of
  \<^verbatim>\<open>simulator.drones\<close> in their order.
\<close>

record Simulator =
  event_duration :: int
  packets_max_ttl :: int
  time_step_duration :: real
  routing_algorithm_name :: string
  drones :: "int list"
  drone_speed :: real
  drone_sen_range :: real
  drone_com_range :: real
  drone_max_buffer_size :: int
  drone_max_energy :: real
  metrics :: Metrics

text \<open>
  \<^verbatim>\<open>Event.__init__\<close>; \<open>self_id\<close> is the value of \<^verbatim>\<open>id(self)\<close>. The event is
  registered in the metrics unless it is the placeholder \<^verbatim>\<open>((-1, -1), -1)\<close>.
\<close>

definition Event_init ::
  "int \<Rightarrow> coords \<Rightarrow> int \<Rightarrow> Simulator \<Rightarrow> int option \<Rightarrow> Event \<times> Simulator" where
  "Event_init self_id c cur_time sim dl =
     (let self = \<lparr>identifier = self_id, coords = c, current_time = cur_time,
                  deadline = (case dl of None \<Rightarrow> cur_time + event_duration sim
                                       | Some v \<Rightarrow> v)\<rparr>
      in if \<not> c = (- 1, - 1) \<and> \<not> cur_time = - 1
         then (self, sim\<lparr>metrics := (metrics sim)\<lparr>events := insert self (events (metrics sim))\<rparr>\<rparr>)
         else (self, sim))"

definition Event_is_expired :: "Event \<Rightarrow> int \<Rightarrow> bool" where
  "Event_is_expired self cur_step = (cur_step > deadline self)"

subsection \<open>Packet\<close>

text \<open>
  Of the packet's attributes, \<^verbatim>\<open>optional_data\<close> (never read in this file) is left
  out. \<open>last_2_hops\<close> holds the identifiers of the drones.
\<close>

record Packet = Entity +
  time_step_creation :: int
  event_ref :: Event
  TTL :: int
  max_TTL :: int
  number_retransmission_attempt :: int
  accumulated_delay :: real
  packet_size :: real
  last_2_hops :: "int list"
  time_delivery :: "int option"
  is_move_packet :: "bool option"

text \<open>
  \<^verbatim>\<open>Packet.__init__\<close> (and \<^verbatim>\<open>DataPacket.__init__\<close>, which only calls it).
  \<open>self_addr\<close> is the address of the new object, so \<^verbatim>\<open>id(self)\<close> is \<open>int self_addr\<close>;
  \<open>fresh_id\<close> is the \<^verbatim>\<open>id\<close> of the placeholder event built when no event is given;
  \<open>sz\<close> is the sample drawn for \<^verbatim>\<open>packet_size\<close>.
\<close>

definition Packet_init ::
  "nat \<Rightarrow> int \<Rightarrow> real \<Rightarrow> int \<Rightarrow> Simulator \<Rightarrow> Event option \<Rightarrow> Packet \<times> Simulator" where
  "Packet_init self_addr fresh_id sz t_creation sim ev =
     (let (event_ref_crafted, sim1) =
            (case ev of Some e \<Rightarrow> (e, sim)
                      | None \<Rightarrow> Event_init fresh_id (- 1, - 1) (- 1) sim None);
          self = \<lparr>identifier = int self_addr, coords = coords event_ref_crafted,
                  time_step_creation = t_creation, event_ref = event_ref_crafted,
                  TTL = - 1, max_TTL = packets_max_ttl sim1,
                  number_retransmission_attempt = 0, accumulated_delay = 0,
                  packet_size = sz, last_2_hops = [],
                  time_delivery = None, is_move_packet = None\<rparr>
      in if ev \<noteq> None
         then (self, sim1\<lparr>metrics := (metrics sim1)\<lparr>drones_packets :=
                              insert self_addr (drones_packets (metrics sim1))\<rparr>\<rparr>)
         else (self, sim1))"

definition increase_TTL_hops :: "Packet \<Rightarrow> Packet" where
  "increase_TTL_hops self = self\<lparr>TTL := TTL self + 1\<rparr>"

definition add_hop :: "Packet \<Rightarrow> int \<Rightarrow> Packet" where
  "add_hop self drone =
     (let self1 = (if length (last_2_hops self) = 2
                   then self\<lparr>last_2_hops := drop 1 (last_2_hops self)\<rparr>
                   else self);
          self2 = self1\<lparr>last_2_hops := last_2_hops self1 @ [drone]\<rparr>
      in increase_TTL_hops self2)"

definition get_TTL :: "Packet \<Rightarrow> int" where
  "get_TTL self = TTL self"

definition Packet_is_expired :: "Packet \<Rightarrow> int \<Rightarrow> bool" where
  "Packet_is_expired self cur_step = (cur_step > deadline (event_ref self))"

text \<open>\<^verbatim>\<open>Event.as_packet(time_step_creation, drone)\<close>.\<close>

definition as_packet ::
  "Event \<Rightarrow> nat \<Rightarrow> int \<Rightarrow> real \<Rightarrow> int \<Rightarrow> Simulator \<Rightarrow> int \<Rightarrow> Packet \<times> Simulator" where
  "as_packet self pck_addr fresh_id sz t_creation sim drone =
     (let (pck, sim1) = Packet_init pck_addr fresh_id sz t_creation sim (Some self)
      in (add_hop pck drone, sim1))"

subsection \<open>The shared state\<close>

text \<open>
  One call \<^verbatim>\<open>drone.routing_algorithm.feedback(current_drone, id_event, delay, outcome,
  reward, None, None)\<close> made on the strategy of the drone \<open>receiver\<close>. The strategies
  are collaborators outside this file; the model records the calls in their order.
\<close>

record feedback_call =
  receiver :: int
  fb_drone :: int
  fb_id_event :: int
  fb_delay :: int
  fb_outcome :: int
  fb_reward :: int

text \<open>
  What the entities share: the simulation object, the store of the packet objects
  (total: an address that holds no packet is never read) and the feedback calls
  made so far.
\<close>

record World =
  simulator :: Simulator
  heap :: "nat \<Rightarrow> Packet"
  feedback_log :: "feedback_call list"

text \<open>
  The test \<^verbatim>\<open>name not in "GEO" "RND" "GEOS"\<close> of both broadcasts: Python joins
  adjacent string literals into one string, and \<^verbatim>\<open>in\<close> on strings is the substring
  test.
\<close>

definition name_not_in_baselines :: "string \<Rightarrow> bool" where
  "name_not_in_baselines name = (\<not> str_contains (''GEO'' @ ''RND'' @ ''GEOS'') name)"

subsection \<open>Depot\<close>

record Depot = Entity +
  communication_range :: real
  buffer :: "nat list"

definition Depot_init :: "int \<Rightarrow> coords \<Rightarrow> real \<Rightarrow> Depot" where
  "Depot_init self_id c com_range =
     \<lparr>identifier = self_id, coords = c, communication_range = com_range, buffer = []\<rparr>"

definition Depot_all_packets :: "Depot \<Rightarrow> nat list" where
  "Depot_all_packets self = Depot.buffer self"

subsection \<open>Drone\<close>

text \<open>
  The value of \<^verbatim>\<open>tightest_event_deadline\<close>: \<^verbatim>\<open>None\<close> after construction, the
  not-a-number of numpy, or a number.
\<close>

datatype tightest = Unset | NaN | Num real

text \<open>
  \<^verbatim>\<open>np.nanmin([cur, d])\<close>: the minimum that ignores not-a-number. On \<^verbatim>\<open>None\<close>
  numpy raises; \<open>update_packets\<close> never calls it there, as it assigns not-a-number
  first.
\<close>

fun nanmin :: "tightest \<Rightarrow> int \<Rightarrow> tightest" where
  "nanmin NaN d = Num (of_int d)"
| "nanmin (Num c) d = Num (min c (of_int d))"
| "nanmin Unset d = Unset"

text \<open>
  The drone's attributes. \<^verbatim>\<open>depot\<close> (the functions that read it take the depot as
  an argument) and \<^verbatim>\<open>routing_algorithm\<close> (a collaborator) are left out. The totals
  \<^verbatim>\<open>accumulated_send_energy\<close> and \<^verbatim>\<open>accumulated_hello_energy\<close> start as the integer 0
  and only ever grow by an integer: they are Python integers. The residual energy, the
  speed and (from the first move on) \<^verbatim>\<open>accumulated_moving_energy\<close> are doubles.
\<close>

record Drone = Entity +
  path :: "coords list"
  speed :: real
  sensing_range :: real
  communication_range :: real
  buffer_max_size :: int
  residual_energy :: real
  initial_energy :: real
  come_back_to_mission :: bool
  last_move_routing :: bool
  transmission_rate :: real
  accumulated_moving_energy :: real
  accumulated_hello_energy :: int
  accumulated_send_energy :: int
  tightest_event_deadline :: tightest
  current_waypoint :: int
  buffer :: "nat list"
  distance_from_depot :: real
  move_routing :: bool
  last_mission_coords :: "coords option"


text \<open>\<^verbatim>\<open>Drone.__hash__\<close> overrides the entity's: \<^verbatim>\<open>hash(self.identifier)\<close>.\<close>

definition Drone_hash :: "Drone \<Rightarrow> int" where
  "Drone_hash self = hash_int (identifier self)"

definition all_packets :: "Drone \<Rightarrow> nat list" where
  "all_packets self = buffer self"

definition buffer_length :: "Drone \<Rightarrow> int" where
  "buffer_length self = int (length (buffer self))"

definition is_full :: "Drone \<Rightarrow> bool" where
  "is_full self = (buffer_length self = buffer_max_size self)"

definition empty_buffer :: "Drone \<Rightarrow> Drone" where
  "empty_buffer self = self\<lparr>buffer := []\<rparr>"

text \<open>
  \<^verbatim>\<open>Drone.is_known_packet\<close>: the loop over the buffer returns at the first packet
  whose event equals the given packet's event.
\<close>

fun is_known_packet_loop :: "(nat \<Rightarrow> Packet) \<Rightarrow> nat list \<Rightarrow> nat \<Rightarrow> bool" where
  "is_known_packet_loop h [] packet = False"
| "is_known_packet_loop h (pk # rest) packet =
     (if Entity_eq (event_ref (h pk)) (Some (event_ref (h packet))) then True
      else is_known_packet_loop h rest packet)"

definition is_known_packet :: "World \<Rightarrow> Drone \<Rightarrow> nat \<Rightarrow> bool" where
  "is_known_packet w self packet = is_known_packet_loop (heap w) (buffer self) packet"

text \<open>\<^verbatim>\<open>Drone.accept_packets\<close>: one pass over the offered packets.\<close>

fun accept_packets :: "World \<Rightarrow> Drone \<Rightarrow> nat list \<Rightarrow> Drone" where
  "accept_packets w self [] = self"
| "accept_packets w self (packet # packets) =
     accept_packets w
       (if \<not> is_known_packet w self packet
        then self\<lparr>buffer := buffer self @ [packet]\<rparr>
        else self)
       packets"

text \<open>
  \<^verbatim>\<open>Drone.feel_event\<close>. \<open>ev_id\<close> is the \<^verbatim>\<open>id\<close> of the new event, \<open>pck_addr\<close> the
  address of the new packet, \<open>sz\<close> its sampled size; the packet is stored at its
  address whether or not the drone keeps it.
\<close>

definition feel_event ::
  "World \<Rightarrow> Drone \<Rightarrow> int \<Rightarrow> int \<Rightarrow> nat \<Rightarrow> real \<Rightarrow> World \<times> Drone" where
  "feel_event w self cur_step ev_id pck_addr sz =
     (let (ev, sim1) = Event_init ev_id (coords self) cur_step (simulator w) None;
          (pk, sim2) = as_packet ev pck_addr ev_id sz cur_step sim1 (identifier self);
          w1 = w\<lparr>simulator := sim2, heap := (heap w)(pck_addr := pk)\<rparr>
      in if \<not> move_routing self \<and> \<not> come_back_to_mission self
         then (w1\<lparr>simulator := sim2\<lparr>metrics := (metrics sim2)
                      \<lparr>all_data_packets_in_simulation :=
                         all_data_packets_in_simulation (metrics sim2) + 1\<rparr>\<rparr>\<rparr>,
               self\<lparr>buffer := buffer self @ [pck_addr]\<rparr>)
         else (w1\<lparr>simulator := sim2\<lparr>metrics := (metrics sim2)
                      \<lparr>events_not_listened :=
                         insert ev (events_not_listened (metrics sim2))\<rparr>\<rparr>\<rparr>,
               self))"

text \<open>
  \<^verbatim>\<open>Drone.update_packets\<close>. The state of its loop: \<^verbatim>\<open>tmp_buffer\<close>, the drone's
  \<^verbatim>\<open>tightest_event_deadline\<close>, \<^verbatim>\<open>to_remove_packets\<close> and the feedback calls made.
\<close>

record update_state =
  tmp_buffer :: "nat list"
  us_tightest :: tightest
  to_remove_packets :: int
  us_feedback :: "feedback_call list"

definition expiry_broadcast :: "Simulator \<Rightarrow> int \<Rightarrow> Packet \<Rightarrow> feedback_call list" where
  "expiry_broadcast sim current_drone pck =
     map (\<lambda>drone. \<lparr>receiver = drone, fb_drone = current_drone,
                    fb_id_event = identifier (event_ref pck),
                    fb_delay = event_duration sim,
                    fb_outcome = - 1, fb_reward = - 100\<rparr>)
         (drones sim)"

fun update_packets_loop ::
  "Simulator \<Rightarrow> (nat \<Rightarrow> Packet) \<Rightarrow> int \<Rightarrow> int \<Rightarrow> nat list \<Rightarrow> update_state \<Rightarrow> update_state" where
  "update_packets_loop sim h self_id cur_step [] st = st"
| "update_packets_loop sim h self_id cur_step (pck # rest) st =
     update_packets_loop sim h self_id cur_step rest
       (if \<not> Packet_is_expired (h pck) cur_step
        then st\<lparr>tmp_buffer := tmp_buffer st @ [pck],
                us_tightest := nanmin (us_tightest st) (deadline (event_ref (h pck)))\<rparr>
        else (let st1 = st\<lparr>to_remove_packets := to_remove_packets st + 1\<rparr>
              in if name_not_in_baselines (routing_algorithm_name sim)
                 then st1\<lparr>us_feedback := us_feedback st1 @ expiry_broadcast sim self_id (h pck)\<rparr>
                 else st1))"

definition update_packets :: "World \<Rightarrow> Drone \<Rightarrow> int \<Rightarrow> World \<times> Drone" where
  "update_packets w self cur_step =
     (let st = update_packets_loop (simulator w) (heap w) (identifier self) cur_step (buffer self)
                 \<lparr>tmp_buffer = [], us_tightest = NaN, to_remove_packets = 0, us_feedback = []\<rparr>;
          self1 = self\<lparr>tightest_event_deadline := us_tightest st, buffer := tmp_buffer st\<rparr>;
          self2 = (if buffer_length self1 = 0 then self1\<lparr>move_routing := False\<rparr> else self1)
      in (w\<lparr>feedback_log := feedback_log w @ us_feedback st\<rparr>, self2))"

text \<open>
  \<^verbatim>\<open>Drone.packet_is_expiring\<close>. The division comes first and raises on speed zero;
  \<^verbatim>\<open>None - cur_step\<close> raises; every comparison with not-a-number is false.
\<close>

definition packet_is_expiring :: "World \<Rightarrow> Drone \<Rightarrow> int \<Rightarrow> error + bool" where
  "packet_is_expiring w self cur_step =
     (if speed self = 0 then Inl ZeroDivisionError
      else
        (let time_to_depot = distance_from_depot self / speed self
         in case tightest_event_deadline self of
              Unset \<Rightarrow> Inl TypeError
            | NaN \<Rightarrow> Inr False
            | Num dl \<Rightarrow>
                (let event_time_to_dead = (dl - of_int cur_step) * time_step_duration (simulator w)
                 in Inr (event_time_to_dead - 5 < time_to_depot \<and> time_to_depot \<le> event_time_to_dead))))"

text \<open>
  \<^verbatim>\<open>Drone.decrease_energy\<close>. Each \<^verbatim>\<open>-=\<close> and \<^verbatim>\<open>+=\<close> on a double is one rounded
  operation, and so is the product \<^verbatim>\<open>self.speed * 100\<close>, which is computed twice.
\<close>

definition decrease_energy :: "Drone \<Rightarrow> string \<Rightarrow> Drone" where
  "decrease_energy self action =
     (if action = ''transmission''
      then self\<lparr>residual_energy := fl (residual_energy self - 100),
                accumulated_send_energy := accumulated_send_energy self + 100\<rparr>
      else if action = ''move''
      then self\<lparr>residual_energy := fl (residual_energy self - fl (speed self * 100)),
                accumulated_moving_energy :=
                  fl (accumulated_moving_energy self + fl (speed self * 100))\<rparr>
      else if action = ''hello''
      then self\<lparr>residual_energy := fl (residual_energy self - 10),
                accumulated_hello_energy := accumulated_hello_energy self + 10\<rparr>
      else self)"

subsection \<open>Movement\<close>

text \<open>
  Modelled from the spec: \<^verbatim>\<open>utilities.euclidean_distance\<close> is not part of the file;
  it is the Euclidean distance of two points of the map.
\<close>

definition euclidean_distance :: "coords \<Rightarrow> coords \<Rightarrow> real" where
  "euclidean_distance p0 p1 = sqrt ((fst p0 - fst p1)\<^sup>2 + (snd p0 - snd p1)\<^sup>2)"

definition interpolate :: "coords \<Rightarrow> coords \<Rightarrow> real \<Rightarrow> coords" where
  "interpolate p0 p1 t = ((1 - t) * fst p0 + t * fst p1, (1 - t) * snd p0 + t * snd p1)"

text \<open>\<^verbatim>\<open>Drone.__update_position\<close>.\<close>

definition update_position :: "Drone \<Rightarrow> coords \<Rightarrow> error + Drone" where
  "update_position self p1 =
     (if come_back_to_mission self
      then Inr (self\<lparr>come_back_to_mission := False, coords := p1\<rparr>)
      else
        (let self1 = self\<lparr>current_waypoint := current_waypoint self + 1\<rparr>
         in case py_index (path self1) (current_waypoint self1) of
              Inl e \<Rightarrow> Inl e
            | Inr c \<Rightarrow> Inr (self1\<lparr>coords := c\<rparr>)))"

text \<open>
  \<^verbatim>\<open>Drone.__move_to_mission\<close>. A target \<^verbatim>\<open>None\<close> (no mission coordinates stored)
  makes the distance computation raise. \<^verbatim>\<open>exit(1)\<close> is \<open>SystemExit 1\<close>.
\<close>

definition move_to_mission :: "Drone \<Rightarrow> real \<Rightarrow> error + Drone" where
  "move_to_mission self0 time =
     (let self = (if current_waypoint self0 \<ge> int (length (path self0)) - 1
                  then self0\<lparr>current_waypoint := - 1\<rparr> else self0);
          p0 = coords self
      in case (if come_back_to_mission self
               then (case last_mission_coords self of
                       None \<Rightarrow> Inl TypeError
                     | Some c \<Rightarrow> Inr c)
               else py_index (path self) (current_waypoint self + 1)) of
           Inl e \<Rightarrow> Inl e
         | Inr p1 \<Rightarrow>
            (let all_distance = euclidean_distance p0 p1;
                 distance = time * speed self
             in if all_distance = 0 \<or> distance = 0 then update_position self p1
                else
                  (let t = distance / all_distance
                   in if t \<ge> 1 then update_position self p1
                      else if t \<le> 0 then Inl (SystemExit 1)
                      else Inr (self\<lparr>coords := interpolate p0 p1 t\<rparr>))))"

text \<open>\<^verbatim>\<open>Drone.__move_to_depot\<close>; \<open>depot\<close> is \<^verbatim>\<open>self.depot\<close>.\<close>

definition move_to_depot :: "Depot \<Rightarrow> Drone \<Rightarrow> real \<Rightarrow> error + Drone" where
  "move_to_depot depot self time =
     (let p0 = coords self;
          p1 = coords depot;
          all_distance = euclidean_distance p0 p1;
          distance = time * speed self
      in if all_distance = 0 then Inr (self\<lparr>move_routing := False\<rparr>)
         else
           (let t = distance / all_distance
            in if t \<ge> 1 then Inr (self\<lparr>coords := p1\<rparr>)
               else if t \<le> 0 then Inl (SystemExit 1)
               else Inr (self\<lparr>coords := interpolate p0 p1 t\<rparr>)))"

text \<open>\<^verbatim>\<open>Drone.move\<close>.\<close>

definition bump_active_routing :: "World \<Rightarrow> World" where
  "bump_active_routing w =
     w\<lparr>simulator := (simulator w)\<lparr>metrics := (metrics (simulator w))
         \<lparr>time_on_active_routing := time_on_active_routing (metrics (simulator w)) + 1\<rparr>\<rparr>\<rparr>"

definition bump_on_mission :: "World \<Rightarrow> World" where
  "bump_on_mission w =
     w\<lparr>simulator := (simulator w)\<lparr>metrics := (metrics (simulator w))
         \<lparr>time_on_mission := time_on_mission (metrics (simulator w)) + 1\<rparr>\<rparr>\<rparr>"

definition move :: "World \<Rightarrow> Depot \<Rightarrow> Drone \<Rightarrow> real \<Rightarrow> error + (World \<times> Drone)" where
  "move w depot self time =
     (let w1 = (if move_routing self \<or> come_back_to_mission self
                then bump_active_routing w else w)
      in case (if move_routing self
               then (case move_to_depot depot
                            (if \<not> last_move_routing self
                             then self\<lparr>last_mission_coords := Some (coords self)\<rparr>
                             else self) time of
                       Inl e \<Rightarrow> Inl e
                     | Inr d \<Rightarrow> Inr (w1, d))
               else (case move_to_mission
                            (if last_move_routing self
                             then self\<lparr>come_back_to_mission := True\<rparr>
                             else self) time of
                       Inl e \<Rightarrow> Inl e
                     | Inr d \<Rightarrow> Inr (bump_on_mission w1, d))) of
           Inl e \<Rightarrow> Inl e
         | Inr (w2, d) \<Rightarrow>
             Inr (w2, decrease_energy (d\<lparr>last_move_routing := move_routing d\<rparr>) ''move''))"

subsection \<open>Offloading to the depot\<close>

text \<open>
  \<^verbatim>\<open>Depot.transfer_notified_packets\<close>. The depot's list and the drone's list are two
  list objects (each built by its own constructor), so extending the first does not
  touch the second; the packets in them are shared through the store.
\<close>

definition delivery_broadcast :: "Simulator \<Rightarrow> int \<Rightarrow> Packet \<Rightarrow> int \<Rightarrow> feedback_call list" where
  "delivery_broadcast sim current_drone pck cur_step =
     map (\<lambda>drone. \<lparr>receiver = drone, fb_drone = current_drone,
                    fb_id_event = identifier (event_ref pck),
                    fb_delay = cur_step - current_time (event_ref pck),
                    fb_outcome = 1, fb_reward = 100\<rparr>)
         (drones sim)"

fun transfer_loop :: "int \<Rightarrow> int \<Rightarrow> nat list \<Rightarrow> World \<Rightarrow> World" where
  "transfer_loop current_drone cur_step [] w = w"
| "transfer_loop current_drone cur_step (pck # rest) w =
     (let sim = simulator w;
          w1 = (if name_not_in_baselines (routing_algorithm_name sim)
                then w\<lparr>feedback_log := feedback_log w
                          @ delivery_broadcast sim current_drone (heap w pck) cur_step\<rparr>
                else w);
          m = metrics sim;
          w2 = w1\<lparr>simulator := sim\<lparr>metrics := m
                  \<lparr>drones_packets_to_depot := insert (pck, cur_step) (drones_packets_to_depot m),
                   drones_packets_to_depot_list :=
                     drones_packets_to_depot_list m @ [(pck, cur_step)]\<rparr>\<rparr>\<rparr>;
          w3 = w2\<lparr>heap := (heap w2)(pck := (heap w2 pck)\<lparr>time_delivery := Some cur_step\<rparr>)\<rparr>
      in transfer_loop current_drone cur_step rest w3)"

definition transfer_notified_packets ::
  "World \<Rightarrow> Depot \<Rightarrow> Drone \<Rightarrow> int \<Rightarrow> World \<times> Depot \<times> Drone" where
  "transfer_notified_packets w self current_drone cur_step =
     (let packets_to_offload = all_packets current_drone;
          self1 = self\<lparr>Depot.buffer := Depot.buffer self @ packets_to_offload\<rparr>
      in (transfer_loop (identifier current_drone) cur_step packets_to_offload w,
          self1, current_drone))"

subsection \<open>Properties stated over buffers, and sample data\<close>

text \<open>No two entries of a buffer hold events that compare equal.\<close>

fun no_equal_events :: "(nat \<Rightarrow> Packet) \<Rightarrow> nat list \<Rightarrow> bool" where
  "no_equal_events h [] = True"
| "no_equal_events h (p # ps) =
     ((\<forall>q \<in> set ps. \<not> Entity_eq (event_ref (h p)) (Some (event_ref (h q))))
      \<and> no_equal_events h ps)"

definition sample_metrics :: Metrics where
  "sample_metrics =
     \<lparr>events = {}, drones_packets = {}, all_data_packets_in_simulation = 0,
      events_not_listened = {}, drones_packets_to_depot = {},
      drones_packets_to_depot_list = [], time_on_mission = 0, time_on_active_routing = 0\<rparr>"

definition sample_simulator :: "string \<Rightarrow> Simulator" where
  "sample_simulator name =
     \<lparr>event_duration = 50, packets_max_ttl = 200, time_step_duration = 1,
      routing_algorithm_name = name, drones = [7, 8],
      drone_speed = 8, drone_sen_range = 0, drone_com_range = 200,
      drone_max_buffer_size = 2, drone_max_energy = 1000000,
      metrics = sample_metrics\<rparr>"

definition sample_event :: "int \<Rightarrow> int \<Rightarrow> Event" where
  "sample_event ident dl = \<lparr>identifier = ident, coords = (5, 5), current_time = 10, deadline = dl\<rparr>"

definition sample_packet :: "nat \<Rightarrow> Event \<Rightarrow> Packet" where
  "sample_packet addr ev =
     \<lparr>identifier = int addr, coords = coords ev, time_step_creation = 10, event_ref = ev,
      TTL = 0, max_TTL = 200, number_retransmission_attempt = 0, accumulated_delay = 0,
      packet_size = 500, last_2_hops = [7], time_delivery = None, is_move_packet = None\<rparr>"

text \<open>
  A store with four packets: the packets at 0 and 1 carry the events 100 (deadline
  100) and 101 (deadline 150), the packet at 2 is a second packet of the event 100,
  the packet at 3 carries the event 103 (deadline 10).
\<close>

definition sample_heap :: "nat \<Rightarrow> Packet" where
  "sample_heap addr =
     (if addr = 0 then sample_packet 0 (sample_event 100 100)
      else if addr = 1 then sample_packet 1 (sample_event 101 150)
      else if addr = 2 then sample_packet 2 (sample_event 100 100)
      else sample_packet addr (sample_event 103 10))"

definition sample_world :: "string \<Rightarrow> World" where
  "sample_world name = \<lparr>simulator = sample_simulator name, heap = sample_heap, feedback_log = []\<rparr>"

text \<open>The drone that the constructor builds for the path \<open>[(0,0), (10,0)]\<close>.\<close>

definition sample_drone :: Drone where
  "sample_drone =
     \<lparr>identifier = 7, coords = (0, 0),
      path = [(0, 0), (10, 0)], speed = 8, sensing_range = 0, communication_range = 200,
      buffer_max_size = 2, residual_energy = 1000000, initial_energy = 1000000,
      come_back_to_mission = False, last_move_routing = False, transmission_rate = 200000,
      accumulated_moving_energy = 0, accumulated_hello_energy = 0, accumulated_send_energy = 0,
      tightest_event_deadline = Unset, current_waypoint = 0, buffer = [],
      distance_from_depot = 0, move_routing = False, last_mission_coords = None\<rparr>"

definition sample_depot :: Depot where
  "sample_depot = Depot_init 99 (3, 4) 200"

lemmas sample_defs = sample_world_def sample_simulator_def sample_metrics_def sample_heap_def
  sample_packet_def sample_event_def sample_drone_def sample_depot_def Depot_init_def

section \<open>Identity of entities\<close>

lemma Entity_eq_iff: "Entity_eq a (Some b) \<longleftrightarrow> identifier a = identifier b"
  by (auto simp: Entity_eq_def)

lemma Entity_eq_not_entity: "\<not> Entity_eq a None"
  by (simp add: Entity_eq_def)

lemma Drone_hash_by_identifier: "identifier a = identifier b \<Longrightarrow> Drone_hash a = Drone_hash b"
  by (simp add: Drone_hash_def)

lemmas hash_defs = Entity_hash_def tuplehash_def hash_number_def hash_int_def PyHASH_MODULUS_def
  XXPRIME_1_def XXPRIME_2_def XXPRIME_5_def XXROTATE_def

text \<open>
  C1. Equality of entities is by identifier alone (\<open>Entity_eq_iff\<close>) and so is the hash
  of a drone (\<open>Drone_hash_by_identifier\<close>), but the hash that events, packets and the
  depot inherit is taken of the pair of identifier and coordinates: two entities with
  the identifier 1, one at \<open>(0,0)\<close> and one at \<open>(1,0)\<close>, are equal and have different
  hashes (the values of \<^verbatim>\<open>hash((1, (0, 0)))\<close> and \<^verbatim>\<open>hash((1, (1, 0)))\<close>); so are an
  event and a drone with the same identifier.
\<close>

theorem Entity_hash_differs_for_equal_entities:
  "Entity_eq \<lparr>identifier = 1, coords = (0, 0)\<rparr> (Some \<lparr>identifier = 1, coords = (1, 0)\<rparr>)
   \<and> Entity_hash \<lparr>identifier = 1, coords = (0, 0)\<rparr> = - 7476415213373952396
   \<and> Entity_hash \<lparr>identifier = 1, coords = (1, 0)\<rparr> = 5815918438011728213
   \<and> Entity_eq (sample_event 7 60) (Some sample_drone)
   \<and> Entity_hash (sample_event 7 60) = 2078291028398918752
   \<and> Drone_hash sample_drone = 7"
  by (simp add: Entity_eq_def Drone_hash_def hash_defs sample_defs)

section \<open>Hops of a packet\<close>

lemma add_hop_TTL: "TTL (add_hop p d) = TTL p + 1"
  by (simp add: add_hop_def increase_TTL_hops_def Let_def)

lemma add_hop_hops:
  "length (last_2_hops p) \<le> 2 \<Longrightarrow>
   last_2_hops (add_hop p d) = drop (length (last_2_hops p @ [d]) - 2) (last_2_hops p @ [d])"
  by (auto simp: add_hop_def increase_TTL_hops_def Let_def)

lemma short_list_cases:
  assumes "length l \<le> 2"
  obtains "l = []" | a where "l = [a]" | a b where "l = [a, b]"
proof (cases l)
  case Nil
  then show ?thesis using that by simp
next
  case (Cons a l')
  show ?thesis
  proof (cases l')
    case Nil
    then show ?thesis using Cons that by simp
  next
    case (Cons b l'')
    with \<open>l = a # l'\<close> assms have "l = [a, b]" by simp
    then show ?thesis using that by simp
  qed
qed

lemma window_step:
  assumes "length l \<le> 2"
  shows "drop (length (drop (length (l @ [d]) - 2) (l @ [d]) @ ds) - 2)
              (drop (length (l @ [d]) - 2) (l @ [d]) @ ds)
         = drop (length (l @ d # ds) - 2) (l @ d # ds)"
  using assms by (rule short_list_cases) simp_all

lemma foldl_add_hop:
  "length (last_2_hops p) \<le> 2 \<Longrightarrow>
   TTL (foldl add_hop p ds) = TTL p + int (length ds) \<and>
   last_2_hops (foldl add_hop p ds) = drop (length (last_2_hops p @ ds) - 2) (last_2_hops p @ ds)"
proof (induction ds arbitrary: p)
  case Nil
  then show ?case by simp
next
  case (Cons d ds)
  have len: "length (last_2_hops (add_hop p d)) \<le> 2"
    using Cons.prems by (simp add: add_hop_hops)
  have "last_2_hops (foldl add_hop (add_hop p d) ds)
        = drop (length (last_2_hops (add_hop p d) @ ds) - 2) (last_2_hops (add_hop p d) @ ds)"
    using Cons.IH[OF len] by simp
  also have "\<dots> = drop (length (last_2_hops p @ d # ds) - 2) (last_2_hops p @ d # ds)"
    unfolding add_hop_hops[OF Cons.prems] by (rule window_step[OF Cons.prems])
  finally show ?case
    using Cons.IH[OF len] by (simp add: add_hop_TTL)
qed

lemma Packet_init_fresh:
  "TTL (fst (Packet_init a f sz t sim ev)) = - 1 \<and> last_2_hops (fst (Packet_init a f sz t sim ev)) = []"
  by (simp add: Packet_init_def Let_def split: prod.splits option.splits)

text \<open>
  C5. A packet as its constructor leaves it has TTL \<open>-1\<close>; after the \<open>n\<close> calls
  \<^verbatim>\<open>add_hop(d)\<close> for the drones \<open>d\<close> of a list \<open>ds\<close> of length \<open>n\<close>, its TTL is \<open>n - 1\<close>
  and \<open>last_2_hops\<close> holds the last two drones of \<open>ds\<close> (all of \<open>ds\<close> when it is
  shorter), so never more than two. A packet built by \<open>as_packet\<close> has TTL 0.
\<close>

theorem add_hop_TTL_and_window:
  "get_TTL (foldl add_hop (fst (Packet_init a f sz t sim ev)) ds) = int (length ds) - 1
   \<and> last_2_hops (foldl add_hop (fst (Packet_init a f sz t sim ev)) ds) = drop (length ds - 2) ds
   \<and> length (last_2_hops (foldl add_hop (fst (Packet_init a f sz t sim ev)) ds)) \<le> 2
   \<and> get_TTL (fst (as_packet e a f sz t sim dr)) = 0"
proof -
  let ?p = "fst (Packet_init a f sz t sim ev)"
  have fresh: "TTL ?p = - 1" "last_2_hops ?p = []"
    using Packet_init_fresh by simp_all
  then have "length (last_2_hops ?p) \<le> 2" by simp
  from foldl_add_hop[OF this, of ds] fresh
  have run: "TTL (foldl add_hop ?p ds) = int (length ds) - 1"
    "last_2_hops (foldl add_hop ?p ds) = drop (length ds - 2) ds"
    by simp_all
  have "get_TTL (fst (as_packet e a f sz t sim dr)) = TTL (fst (Packet_init a f sz t sim (Some e))) + 1"
    by (simp add: as_packet_def get_TTL_def add_hop_TTL split: prod.splits)
  also have "\<dots> = 0" using Packet_init_fresh[of a f sz t sim "Some e"] by simp
  finally show ?thesis using run by (simp add: get_TTL_def)
qed


section \<open>The energy ledger\<close>

subsection \<open>Rounding is exact on integers up to \<open>2^53\<close>\<close>





subsection \<open>The ledger when no operation rounds\<close>








section \<open>The feedback broadcasts\<close>

lemma startswith_iff: "startswith s sub \<longleftrightarrow> (\<exists>suf. s = sub @ suf)"
  by (induction s sub rule: startswith.induct) auto

lemma str_contains_iff: "str_contains s sub \<longleftrightarrow> (\<exists>pre suf. s = pre @ sub @ suf)"
proof (induction s)
  case Nil
  then show ?case by auto
next
  case (Cons a s)
  show ?case
  proof
    assume "str_contains (a # s) sub"
    then consider "startswith (a # s) sub" | "str_contains s sub" by auto
    then show "\<exists>pre suf. a # s = pre @ sub @ suf"
    proof cases
      case 1
      then obtain suf where "a # s = sub @ suf" by (auto simp: startswith_iff)
      then have "a # s = [] @ sub @ suf" by simp
      then show ?thesis by blast
    next
      case 2
      then obtain pre suf where "s = pre @ sub @ suf" using Cons.IH by blast
      then have "a # s = (a # pre) @ sub @ suf" by simp
      then show ?thesis by blast
    qed
  next
    assume "\<exists>pre suf. a # s = pre @ sub @ suf"
    then obtain pre suf where eq: "a # s = pre @ sub @ suf" by blast
    show "str_contains (a # s) sub"
    proof (cases pre)
      case Nil
      with eq have "startswith (a # s) sub" by (auto simp: startswith_iff)
      then show ?thesis by simp
    next
      case (Cons b pre')
      with eq have "s = pre' @ sub @ suf" by simp
      then have "str_contains s sub" using Cons.IH by blast
      then show ?thesis by simp
    qed
  qed
qed

lemma name_not_in_baselines_iff:
  "name_not_in_baselines name \<longleftrightarrow> \<not> (\<exists>pre suf. ''GEORNDGEOS'' = pre @ name @ suf)"
  by (simp add: name_not_in_baselines_def str_contains_iff)

lemma baselines_exempt:
  "\<not> name_not_in_baselines ''GEO'' \<and> \<not> name_not_in_baselines ''RND'' \<and> \<not> name_not_in_baselines ''GEOS''"
  by (simp add: name_not_in_baselines_def)

lemma feedback_broadcast_sample:
  "feedback_log (fst (update_packets (sample_world ''QL'') (sample_drone\<lparr>buffer := [3]\<rparr>) 11)) =
    [\<lparr>receiver = 7, fb_drone = 7, fb_id_event = 103, fb_delay = 50, fb_outcome = - 1, fb_reward = - 100\<rparr>,
     \<lparr>receiver = 8, fb_drone = 7, fb_id_event = 103, fb_delay = 50, fb_outcome = - 1, fb_reward = - 100\<rparr>]"
  by (simp add: update_packets_def transfer_notified_packets_def all_packets_def expiry_broadcast_def Let_def
      name_not_in_baselines_def Packet_is_expired_def buffer_length_def sample_defs)


text \<open>
  C3. The broadcast is made unless the name of the routing algorithm is a substring
  of \<open>GEORNDGEOS\<close> (\<open>name_not_in_baselines_iff\<close>): the three names are exempt
  (\<open>baselines_exempt\<close>), and so is every other substring. With the name \<open>ND\<close>, which is
  none of the three, a drone that drops an expired packet makes no feedback call, and
  neither does the depot on an offload.
\<close>

theorem feedback_skipped_for_substring_name:
  "''ND'' \<notin> {''GEO'', ''RND'', ''GEOS''}
   \<and> Packet_is_expired (heap (sample_world ''ND'') 3) 11
   \<and> drones (simulator (sample_world ''ND'')) = [7, 8]
   \<and> buffer (snd (update_packets (sample_world ''ND'') (sample_drone\<lparr>buffer := [3]\<rparr>) 11)) = []
   \<and> feedback_log (fst (update_packets (sample_world ''ND'') (sample_drone\<lparr>buffer := [3]\<rparr>) 11)) = []
   \<and> feedback_log (fst (transfer_notified_packets (sample_world ''ND'') sample_depot
                          (sample_drone\<lparr>buffer := [3]\<rparr>) 11)) = []"
  by (simp add: update_packets_def transfer_notified_packets_def all_packets_def Let_def
      name_not_in_baselines_def Packet_is_expired_def buffer_length_def sample_defs)


section \<open>The proactive diversion heuristic\<close>

text \<open>
  C6, as stated, fails at the left end of the interval: a drone at distance 5 with
  speed 1 needs 5 seconds, the tightest deadline is 10 steps of one second away, so
  the travel time is exactly the remaining time minus 5, and the answer is false.
\<close>

theorem packet_is_expiring_left_end_excluded:
  "speed (sample_drone\<lparr>speed := 1, distance_from_depot := 5, tightest_event_deadline := Num 10\<rparr>) > 0
   \<and> (10 - real_of_int 0) * time_step_duration (simulator (sample_world ''GEO'')) - 5
        \<le> distance_from_depot (sample_drone\<lparr>speed := 1, distance_from_depot := 5, tightest_event_deadline := Num 10\<rparr>)
          / speed (sample_drone\<lparr>speed := 1, distance_from_depot := 5, tightest_event_deadline := Num 10\<rparr>)
   \<and> distance_from_depot (sample_drone\<lparr>speed := 1, distance_from_depot := 5, tightest_event_deadline := Num 10\<rparr>)
          / speed (sample_drone\<lparr>speed := 1, distance_from_depot := 5, tightest_event_deadline := Num 10\<rparr>)
        \<le> (10 - real_of_int 0) * time_step_duration (simulator (sample_world ''GEO''))
   \<and> packet_is_expiring (sample_world ''GEO'')
        (sample_drone\<lparr>speed := 1, distance_from_depot := 5, tightest_event_deadline := Num 10\<rparr>) 0
      = Inr False"
  by (simp add: packet_is_expiring_def Let_def sample_defs)


text \<open>
  C6, amended. For a drone with positive speed and a numeric tightest deadline,
  \<open>packet_is_expiring\<close> returns true exactly when the travel time to the depot is
  greater than the remaining time minus 5 and at most the remaining time: the
  interval is open at its left end.
\<close>

theorem packet_is_expiring_half_open:
  "0 < speed d \<Longrightarrow> tightest_event_deadline d = Num dl \<Longrightarrow>
   packet_is_expiring w d cur_step
     = Inr ((dl - of_int cur_step) * time_step_duration (simulator w) - 5 < distance_from_depot d / speed d
            \<and> distance_from_depot d / speed d \<le> (dl - of_int cur_step) * time_step_duration (simulator w))"
  by (simp add: packet_is_expiring_def Let_def)

theorem packet_is_expiring_half_open_witness:
  "0 < speed (sample_drone\<lparr>distance_from_depot := 64, tightest_event_deadline := Num 20\<rparr>)
   \<and> tightest_event_deadline (sample_drone\<lparr>distance_from_depot := 64, tightest_event_deadline := Num 20\<rparr>) = Num 20
   \<and> packet_is_expiring (sample_world ''GEO'')
        (sample_drone\<lparr>distance_from_depot := 64, tightest_event_deadline := Num 20\<rparr>) 10 = Inr True"
  using packet_is_expiring_half_open[of "sample_drone\<lparr>distance_from_depot := 64, tightest_event_deadline := Num 20\<rparr>" 20
             "sample_world ''GEO''" 10]
  by (simp add: sample_defs)

section \<open>Buffer maintenance\<close>

lemma update_packets_loop_buffer:
  "tmp_buffer (update_packets_loop sim h i step buf st)
   = tmp_buffer st @ filter (\<lambda>p. \<not> Packet_is_expired (h p) step) buf"
  by (induction buf arbitrary: st) (simp_all add: Let_def)

lemma update_packets_loop_tightest:
  "us_tightest (update_packets_loop sim h i step buf st)
   = foldl nanmin (us_tightest st)
       (map (\<lambda>p. deadline (event_ref (h p))) (filter (\<lambda>p. \<not> Packet_is_expired (h p) step) buf))"
  by (induction buf arbitrary: st) (simp_all add: Let_def)

lemma foldl_nanmin_Num:
  "foldl nanmin (Num c) ds = Num (fold min (map real_of_int ds) c)"
  by (induction ds arbitrary: c) (simp_all add: min.commute)

lemma foldl_nanmin_NaN:
  "foldl nanmin NaN ds = (if ds = [] then NaN else Num (real_of_int (Min (set ds))))"
proof (cases ds)
  case Nil
  then show ?thesis by simp
next
  case (Cons d ds')
  have "foldl nanmin NaN ds = Num (fold min (map real_of_int ds') (real_of_int d))"
    using Cons by (simp add: foldl_nanmin_Num)
  also have "fold min (map real_of_int ds') (real_of_int d)
      = Min (set (real_of_int d # map real_of_int ds'))"
    by (rule Min.set_eq_fold[symmetric])
  also have "\<dots> = Min (set (map real_of_int ds))"
    using Cons by simp
  also have "\<dots> = real_of_int (Min (set ds))"
  proof -
    have "mono real_of_int" by (simp add: mono_def)
    then have "real_of_int (Min (set ds)) = Min (real_of_int ` set ds)"
      using Cons by (intro mono_Min_commute) simp_all
    then show ?thesis by simp
  qed
  finally show ?thesis using Cons by simp
qed

text \<open>
  C2, as stated, fails for a packet whose deadline is the current step: the deadline
  10 is less than \<open>step + 1\<close> at step 10, and \<open>update_packets\<close> keeps the packet.
\<close>

theorem update_packets_keeps_packet_at_deadline:
  "deadline (event_ref (heap (sample_world ''GEO'') 3)) < 10 + 1
   \<and> buffer (sample_drone\<lparr>buffer := [3]\<rparr>) = [3]
   \<and> buffer (snd (update_packets (sample_world ''GEO'') (sample_drone\<lparr>buffer := [3]\<rparr>) 10)) = [3]"
  by (simp add: update_packets_def Let_def Packet_is_expired_def buffer_length_def sample_defs)


text \<open>
  C2, amended. \<open>update_packets\<close> removes exactly the packets whose event deadline is
  less than \<open>step\<close> (those that \<open>is_expired\<close> reports) and keeps the others in their
  order; the tightest deadline becomes the least deadline of the packets kept, or
  not-a-number when none is kept; \<open>move_routing\<close> is cleared when the buffer is left
  empty and untouched otherwise.
\<close>

theorem update_packets_removes_expired:
  "buffer (snd (update_packets w d step))
     = filter (\<lambda>p. \<not> deadline (event_ref (heap w p)) < step) (buffer d)
   \<and> tightest_event_deadline (snd (update_packets w d step))
     = (if buffer (snd (update_packets w d step)) = [] then NaN
        else Num (real_of_int (Min (set (map (\<lambda>p. deadline (event_ref (heap w p)))
                                    (buffer (snd (update_packets w d step))))))))
   \<and> (buffer (snd (update_packets w d step)) = [] \<longrightarrow> \<not> move_routing (snd (update_packets w d step)))
   \<and> (buffer (snd (update_packets w d step)) \<noteq> []
        \<longrightarrow> move_routing (snd (update_packets w d step)) = move_routing d)"
proof -
  let ?keep = "filter (\<lambda>p. \<not> deadline (event_ref (heap w p)) < step) (buffer d)"
  have same: "(\<lambda>p. \<not> Packet_is_expired (heap w p) step) = (\<lambda>p. \<not> deadline (event_ref (heap w p)) < step)"
    by (simp add: Packet_is_expired_def)
  have buf: "buffer (snd (update_packets w d step)) = ?keep"
    by (simp add: update_packets_def Let_def update_packets_loop_buffer same)
  have tight: "tightest_event_deadline (snd (update_packets w d step))
     = foldl nanmin NaN (map (\<lambda>p. deadline (event_ref (heap w p))) ?keep)"
    by (simp add: update_packets_def Let_def update_packets_loop_tightest same)
  have mr: "move_routing (snd (update_packets w d step)) = (if ?keep = [] then False else move_routing d)"
    by (simp add: update_packets_def Let_def update_packets_loop_buffer same buffer_length_def)
  show ?thesis
    unfolding buf tight mr by (simp add: foldl_nanmin_NaN)
qed

theorem update_packets_removes_expired_witness:
  "buffer (snd (update_packets (sample_world ''GEO'') (sample_drone\<lparr>buffer := [0, 1], move_routing := True\<rparr>) 101)) = [1]
   \<and> tightest_event_deadline (snd (update_packets (sample_world ''GEO'') (sample_drone\<lparr>buffer := [0, 1], move_routing := True\<rparr>) 101)) = Num 150
   \<and> move_routing (snd (update_packets (sample_world ''GEO'') (sample_drone\<lparr>buffer := [0, 1], move_routing := True\<rparr>) 101))
   \<and> buffer (snd (update_packets (sample_world ''GEO'') (sample_drone\<lparr>buffer := [0, 1], move_routing := True\<rparr>) 151)) = []
   \<and> tightest_event_deadline (snd (update_packets (sample_world ''GEO'') (sample_drone\<lparr>buffer := [0, 1], move_routing := True\<rparr>) 151)) = NaN
   \<and> \<not> move_routing (snd (update_packets (sample_world ''GEO'') (sample_drone\<lparr>buffer := [0, 1], move_routing := True\<rparr>) 151))"
  using update_packets_removes_expired[of "sample_world ''GEO''" "sample_drone\<lparr>buffer := [0, 1], move_routing := True\<rparr>" 101]
        update_packets_removes_expired[of "sample_world ''GEO''" "sample_drone\<lparr>buffer := [0, 1], move_routing := True\<rparr>" 151]
  by (simp add: sample_defs)

section \<open>Packet intake and the capacity of the buffer\<close>

lemma is_known_packet_loop_iff:
  "is_known_packet_loop h buf p
   \<longleftrightarrow> (\<exists>q \<in> set buf. identifier (event_ref (h q)) = identifier (event_ref (h p)))"
  by (induction buf) (auto simp: Entity_eq_def)

lemma no_equal_events_iff:
  "no_equal_events h buf \<longleftrightarrow> distinct (map (\<lambda>q. identifier (event_ref (h q))) buf)"
proof (induction buf)
  case Nil
  then show ?case by simp
next
  case (Cons a buf)
  have "(\<forall>q \<in> set buf. \<not> Entity_eq (event_ref (h a)) (Some (event_ref (h q))))
        \<longleftrightarrow> identifier (event_ref (h a)) \<notin> (\<lambda>q. identifier (event_ref (h q))) ` set buf"
    unfolding Entity_eq_def image_iff by (simp, metis)
  then show ?case using Cons.IH by simp
qed

lemma accept_packets_keeps_distinct:
  "no_equal_events (heap w) (buffer d) \<Longrightarrow> no_equal_events (heap w) (buffer (accept_packets w d packets))"
proof (induction packets arbitrary: d)
  case Nil
  then show ?case by simp
next
  case (Cons p packets)
  let ?d1 = "if \<not> is_known_packet w d p then d\<lparr>buffer := buffer d @ [p]\<rparr> else d"
  have "no_equal_events (heap w) (buffer ?d1)"
    using Cons.prems
    by (auto simp: no_equal_events_iff is_known_packet_def is_known_packet_loop_iff)
  then show ?case using Cons.IH[of ?d1] by simp
qed

text \<open>
  C4. \<open>accept_packets\<close> keeps the buffer free of two entries whose events compare
  equal: it preserves the property on any buffer that has it, and establishes it from
  the empty buffer. A packet whose event is already in the buffer leaves the length as
  it is, and whether a packet is known depends on the events alone: it is known exactly
  when some entry's event equals its event, whatever the packets' own identifiers.
\<close>

theorem accept_packets_no_equal_events:
  "(no_equal_events (heap w) (buffer d)
      \<longrightarrow> no_equal_events (heap w) (buffer (accept_packets w d packets)))
   \<and> no_equal_events (heap w) (buffer (accept_packets w (empty_buffer d) packets))
   \<and> (is_known_packet w d p \<longrightarrow> length (buffer (accept_packets w d [p])) = length (buffer d))
   \<and> (is_known_packet w d p
        \<longleftrightarrow> (\<exists>q \<in> set (buffer d). Entity_eq (event_ref (heap w q)) (Some (event_ref (heap w p)))))"
proof -
  have a: "no_equal_events (heap w) (buffer d)
      \<longrightarrow> no_equal_events (heap w) (buffer (accept_packets w d packets))"
    using accept_packets_keeps_distinct by blast
  have "no_equal_events (heap w) (buffer (empty_buffer d))"
    by (simp add: empty_buffer_def)
  then have b: "no_equal_events (heap w) (buffer (accept_packets w (empty_buffer d) packets))"
    by (rule accept_packets_keeps_distinct)
  have c: "is_known_packet w d p \<longrightarrow> length (buffer (accept_packets w d [p])) = length (buffer d)"
    by simp
  have e: "is_known_packet w d p
        \<longleftrightarrow> (\<exists>q \<in> set (buffer d). Entity_eq (event_ref (heap w q)) (Some (event_ref (heap w p))))"
    unfolding is_known_packet_def is_known_packet_loop_iff Entity_eq_def by (simp, metis)
  show ?thesis using a b c e by blast
qed

theorem accept_packets_no_equal_events_witness:
  "no_equal_events (heap (sample_world ''GEO'')) (buffer (sample_drone\<lparr>buffer := [0, 1]\<rparr>))
   \<and> identifier (heap (sample_world ''GEO'') 2) \<noteq> identifier (heap (sample_world ''GEO'') 0)
   \<and> is_known_packet (sample_world ''GEO'') (sample_drone\<lparr>buffer := [0, 1]\<rparr>) 2
   \<and> buffer (accept_packets (sample_world ''GEO'') (sample_drone\<lparr>buffer := [0, 1]\<rparr>) [2]) = [0, 1]
   \<and> buffer (accept_packets (sample_world ''GEO'') (sample_drone\<lparr>buffer := [0, 1]\<rparr>) [2, 3, 4]) = [0, 1, 3]
   \<and> no_equal_events (heap (sample_world ''GEO''))
        (buffer (accept_packets (sample_world ''GEO'') (sample_drone\<lparr>buffer := [0, 1]\<rparr>) [2, 3, 4]))"
  using accept_packets_no_equal_events[of "sample_world ''GEO''" "sample_drone\<lparr>buffer := [0, 1]\<rparr>" "[2, 3, 4]" 2]
  by (simp add: is_known_packet_def Entity_eq_def sample_defs)

lemma is_known_packet_capacity:
  "is_known_packet w (d\<lparr>buffer_max_size := m\<rparr>) p = is_known_packet w d p"
  by (simp add: is_known_packet_def)

lemma capacity_buffer_commute:
  "d\<lparr>buffer_max_size := m, buffer := b\<rparr> = d\<lparr>buffer := b, buffer_max_size := m\<rparr>"
  by (cases d) simp

lemma accept_packets_capacity:
  "accept_packets w (d\<lparr>buffer_max_size := m\<rparr>) packets
   = (accept_packets w d packets)\<lparr>buffer_max_size := m\<rparr>"
proof (induction packets arbitrary: d)
  case Nil
  then show ?case by simp
next
  case (Cons p packets)
  show ?case
  proof (cases "is_known_packet w d p")
    case True
    then show ?thesis using Cons.IH[of d] by (simp add: is_known_packet_capacity)
  next
    case False
    have "accept_packets w (d\<lparr>buffer_max_size := m\<rparr>) (p # packets)
        = accept_packets w ((d\<lparr>buffer := buffer d @ [p]\<rparr>)\<lparr>buffer_max_size := m\<rparr>) packets"
      using False by (simp add: is_known_packet_capacity capacity_buffer_commute)
    also have "\<dots> = (accept_packets w (d\<lparr>buffer := buffer d @ [p]\<rparr>) packets)\<lparr>buffer_max_size := m\<rparr>"
      by (rule Cons.IH)
    also have "\<dots> = (accept_packets w d (p # packets))\<lparr>buffer_max_size := m\<rparr>"
      using False by simp
    finally show ?thesis .
  qed
qed

lemma accept_packets_extends:
  "\<exists>added. buffer (accept_packets w d packets) = buffer d @ added"
proof (induction packets arbitrary: d)
  case Nil
  then show ?case by simp
next
  case (Cons p packets)
  let ?d1 = "if \<not> is_known_packet w d p then d\<lparr>buffer := buffer d @ [p]\<rparr> else d"
  obtain added where "buffer (accept_packets w ?d1 packets) = buffer ?d1 @ added"
    using Cons.IH[of ?d1] by blast
  moreover obtain one where "buffer ?d1 = buffer d @ one" by (cases "is_known_packet w d p") simp_all
  ultimately have "buffer (accept_packets w d (p # packets)) = buffer d @ (one @ added)" by simp
  then show ?case by blast
qed

lemma accept_packets_keeps_known:
  assumes "is_known_packet w d q"
  shows "is_known_packet w (accept_packets w d packets) q"
proof -
  obtain added where "buffer (accept_packets w d packets) = buffer d @ added"
    using accept_packets_extends by blast
  then show ?thesis
    using assms by (auto simp: is_known_packet_def is_known_packet_loop_iff)
qed

lemma accept_packets_all_known:
  "q \<in> set packets \<Longrightarrow> is_known_packet w (accept_packets w d packets) q"
proof (induction packets arbitrary: d)
  case Nil
  then show ?case by simp
next
  case (Cons p packets)
  let ?d1 = "if \<not> is_known_packet w d p then d\<lparr>buffer := buffer d @ [p]\<rparr> else d"
  have step: "accept_packets w d (p # packets) = accept_packets w ?d1 packets" by simp
  show ?case
  proof (cases "q = p")
    case True
    have "is_known_packet w ?d1 p"
      by (auto simp: is_known_packet_def is_known_packet_loop_iff)
    then show ?thesis unfolding step True by (rule accept_packets_keeps_known)
  next
    case False
    with Cons.prems have "q \<in> set packets" by simp
    then show ?thesis unfolding step by (rule Cons.IH)
  qed
qed

lemma accept_packets_appends_all:
  assumes "distinct (map (\<lambda>q. identifier (event_ref (heap w q))) packets)"
    and "\<forall>q \<in> set packets. \<not> is_known_packet w d q"
  shows "buffer (accept_packets w d packets) = buffer d @ packets"
  using assms
proof (induction packets arbitrary: d)
  case Nil
  then show ?case by simp
next
  case (Cons p packets)
  let ?d1 = "d\<lparr>buffer := buffer d @ [p]\<rparr>"
  have unknown: "\<not> is_known_packet w d p" using Cons.prems(2) by simp
  have d: "distinct (map (\<lambda>q. identifier (event_ref (heap w q))) packets)"
    using Cons.prems(1) by simp
  have "\<forall>q \<in> set packets. \<not> is_known_packet w ?d1 q"
  proof
    fix q assume q: "q \<in> set packets"
    have "identifier (event_ref (heap w p))
        \<notin> (\<lambda>q. identifier (event_ref (heap w q))) ` set packets"
      using Cons.prems(1) by simp
    moreover have "identifier (event_ref (heap w q))
        \<in> (\<lambda>q. identifier (event_ref (heap w q))) ` set packets"
      using q by (rule imageI)
    ultimately have "identifier (event_ref (heap w q)) \<noteq> identifier (event_ref (heap w p))"
      by metis
    moreover have "\<not> is_known_packet w d q" using Cons.prems(2) q by simp
    ultimately show "\<not> is_known_packet w ?d1 q"
      by (auto simp: is_known_packet_def is_known_packet_loop_iff)
  qed
  from Cons.IH[OF d this] unknown show ?case by simp
qed

lemma feel_event_capacity:
  "feel_event w (d\<lparr>buffer_max_size := m\<rparr>) cur_step ev_id pck_addr sz
   = (fst (feel_event w d cur_step ev_id pck_addr sz),
      (snd (feel_event w d cur_step ev_id pck_addr sz))\<lparr>buffer_max_size := m\<rparr>)"
  by (simp add: feel_event_def Let_def split: prod.splits)

lemma feel_event_packet:
  "heap (fst (feel_event w d cur_step ev_id pck_addr sz)) pck_addr
   = \<lparr>identifier = int pck_addr, coords = coords d, time_step_creation = cur_step,
      event_ref = \<lparr>identifier = ev_id, coords = coords d, current_time = cur_step,
                   deadline = cur_step + event_duration (simulator w)\<rparr>,
      TTL = 0, max_TTL = packets_max_ttl (simulator w), number_retransmission_attempt = 0,
      accumulated_delay = 0, packet_size = sz, last_2_hops = [identifier d],
      time_delivery = None, is_move_packet = None\<rparr>"
  by (simp add: feel_event_def as_packet_def Packet_init_def Event_init_def add_hop_def
      increase_TTL_hops_def Let_def split: prod.splits)

text \<open>
  C8. Insertion never looks at \<open>buffer_max_size\<close>. \<open>feel_event\<close> and \<open>accept_packets\<close>
  (on any list of packets) do the same whatever the value of \<open>buffer_max_size\<close> is and
  leave it as it is. A drone on mission appends the packet of the event it feels, a
  new packet of a new event at its position with the drone as first hop. \<open>accept_packets\<close>
  keeps the buffer as a prefix, leaves no offered packet with an unknown event, appends
  a packet of an unknown event, and appends a whole list of packets of distinct unknown
  events. \<open>is_full\<close> holds exactly when the length of the buffer equals \<open>buffer_max_size\<close>.
\<close>

theorem insertion_ignores_buffer_max_size:
  "(\<not> move_routing d \<and> \<not> come_back_to_mission d
      \<longrightarrow> buffer (snd (feel_event w d cur_step ev_id pck_addr sz)) = buffer d @ [pck_addr])
   \<and> (\<not> is_known_packet w d p \<longrightarrow> buffer (accept_packets w d [p]) = buffer d @ [p])
   \<and> buffer_max_size (snd (feel_event w d cur_step ev_id pck_addr sz)) = buffer_max_size d
   \<and> buffer_max_size (accept_packets w d packets) = buffer_max_size d
   \<and> is_full d = (int (length (buffer d)) = buffer_max_size d)
   \<and> accept_packets w (d\<lparr>buffer_max_size := m\<rparr>) packets
       = (accept_packets w d packets)\<lparr>buffer_max_size := m\<rparr>
   \<and> (\<forall>q \<in> set packets. is_known_packet w (accept_packets w d packets) q)
   \<and> take (length (buffer d)) (buffer (accept_packets w d packets)) = buffer d
   \<and> (distinct (map (\<lambda>q. identifier (event_ref (heap w q))) packets)
        \<and> (\<forall>q \<in> set packets. \<not> is_known_packet w d q)
       \<longrightarrow> buffer (accept_packets w d packets) = buffer d @ packets)
   \<and> feel_event w (d\<lparr>buffer_max_size := m\<rparr>) cur_step ev_id pck_addr sz
       = (fst (feel_event w d cur_step ev_id pck_addr sz),
          (snd (feel_event w d cur_step ev_id pck_addr sz))\<lparr>buffer_max_size := m\<rparr>)
   \<and> heap (fst (feel_event w d cur_step ev_id pck_addr sz)) pck_addr
       = \<lparr>identifier = int pck_addr, coords = coords d, time_step_creation = cur_step,
          event_ref = \<lparr>identifier = ev_id, coords = coords d, current_time = cur_step,
                       deadline = cur_step + event_duration (simulator w)\<rparr>,
          TTL = 0, max_TTL = packets_max_ttl (simulator w), number_retransmission_attempt = 0,
          accumulated_delay = 0, packet_size = sz, last_2_hops = [identifier d],
          time_delivery = None, is_move_packet = None\<rparr>
   \<and> (\<not> move_routing d \<and> \<not> come_back_to_mission d
      \<longrightarrow> snd (feel_event w d cur_step ev_id pck_addr sz) = d\<lparr>buffer := buffer d @ [pck_addr]\<rparr>
        \<and> all_data_packets_in_simulation (metrics (simulator (fst (feel_event w d cur_step ev_id pck_addr sz))))
            = all_data_packets_in_simulation (metrics (simulator w)) + 1)"
proof -
  have a: "\<not> move_routing d \<and> \<not> come_back_to_mission d
      \<longrightarrow> buffer (snd (feel_event w d cur_step ev_id pck_addr sz)) = buffer d @ [pck_addr]"
    by (simp add: feel_event_def Let_def split: prod.splits)
  have b: "\<not> is_known_packet w d p \<longrightarrow> buffer (accept_packets w d [p]) = buffer d @ [p]"
    by simp
  have c: "buffer_max_size (snd (feel_event w d cur_step ev_id pck_addr sz)) = buffer_max_size d"
    by (simp add: feel_event_def Let_def split: prod.splits)
  have e: "buffer_max_size (accept_packets w d packets) = buffer_max_size d"
    by (induction packets arbitrary: d) simp_all
  have f: "is_full d = (int (length (buffer d)) = buffer_max_size d)"
    by (simp add: is_full_def buffer_length_def)
  have g: "accept_packets w (d\<lparr>buffer_max_size := m\<rparr>) packets
       = (accept_packets w d packets)\<lparr>buffer_max_size := m\<rparr>"
    by (rule accept_packets_capacity)
  have h: "\<forall>q \<in> set packets. is_known_packet w (accept_packets w d packets) q"
    using accept_packets_all_known by blast
  have i: "take (length (buffer d)) (buffer (accept_packets w d packets)) = buffer d"
  proof -
    obtain added where "buffer (accept_packets w d packets) = buffer d @ added"
      using accept_packets_extends by blast
    then show ?thesis by simp
  qed
  have j: "distinct (map (\<lambda>q. identifier (event_ref (heap w q))) packets)
        \<and> (\<forall>q \<in> set packets. \<not> is_known_packet w d q)
       \<longrightarrow> buffer (accept_packets w d packets) = buffer d @ packets"
    using accept_packets_appends_all by blast
  have k: "feel_event w (d\<lparr>buffer_max_size := m\<rparr>) cur_step ev_id pck_addr sz
       = (fst (feel_event w d cur_step ev_id pck_addr sz),
          (snd (feel_event w d cur_step ev_id pck_addr sz))\<lparr>buffer_max_size := m\<rparr>)"
    by (rule feel_event_capacity)
  note l = feel_event_packet[of w d cur_step ev_id pck_addr sz]
  have n: "\<not> move_routing d \<and> \<not> come_back_to_mission d
      \<longrightarrow> snd (feel_event w d cur_step ev_id pck_addr sz) = d\<lparr>buffer := buffer d @ [pck_addr]\<rparr>
        \<and> all_data_packets_in_simulation (metrics (simulator (fst (feel_event w d cur_step ev_id pck_addr sz))))
            = all_data_packets_in_simulation (metrics (simulator w)) + 1"
    by (simp add: feel_event_def as_packet_def Packet_init_def Event_init_def Let_def
        split: prod.splits)
  show ?thesis
    using a b c e f g h i j k l n by (intro conjI) assumption+
qed

theorem insertion_ignores_buffer_max_size_witness:
  "buffer_length (sample_drone\<lparr>buffer := [0, 1]\<rparr>) \<ge> buffer_max_size (sample_drone\<lparr>buffer := [0, 1]\<rparr>)
   \<and> is_full (sample_drone\<lparr>buffer := [0, 1]\<rparr>)
   \<and> \<not> move_routing (sample_drone\<lparr>buffer := [0, 1]\<rparr>)
   \<and> \<not> come_back_to_mission (sample_drone\<lparr>buffer := [0, 1]\<rparr>)
   \<and> buffer (snd (feel_event (sample_world ''GEO'') (sample_drone\<lparr>buffer := [0, 1]\<rparr>) 20 500 9 512)) = [0, 1, 9]
   \<and> event_ref (heap (fst (feel_event (sample_world ''GEO'') (sample_drone\<lparr>buffer := [0, 1]\<rparr>) 20 500 9 512)) 9)
       = \<lparr>identifier = 500, coords = (0, 0), current_time = 20, deadline = 70\<rparr>
   \<and> all_data_packets_in_simulation (metrics (simulator
         (fst (feel_event (sample_world ''GEO'') (sample_drone\<lparr>buffer := [0, 1]\<rparr>) 20 500 9 512)))) = 1
   \<and> \<not> is_known_packet (sample_world ''GEO'') (sample_drone\<lparr>buffer := [0, 1]\<rparr>) 3
   \<and> buffer (accept_packets (sample_world ''GEO'') (sample_drone\<lparr>buffer := [0, 1]\<rparr>) [3]) = [0, 1, 3]
   \<and> buffer_max_size (accept_packets (sample_world ''GEO'') (sample_drone\<lparr>buffer := [0, 1]\<rparr>) [3]) = 2
   \<and> \<not> is_full (accept_packets (sample_world ''GEO'') (sample_drone\<lparr>buffer := [0, 1]\<rparr>) [3])
   \<and> distinct (map (\<lambda>q. identifier (event_ref (heap (sample_world ''GEO'') q))) [1, 3])
   \<and> \<not> is_known_packet (sample_world ''GEO'') (sample_drone\<lparr>buffer := [0]\<rparr>) 1
   \<and> \<not> is_known_packet (sample_world ''GEO'') (sample_drone\<lparr>buffer := [0]\<rparr>) 3
   \<and> buffer (accept_packets (sample_world ''GEO'') (sample_drone\<lparr>buffer := [0], buffer_max_size := 1\<rparr>) [1, 3])
       = [0, 1, 3]
   \<and> buffer (accept_packets (sample_world ''GEO'') (sample_drone\<lparr>buffer := [0], buffer_max_size := 5\<rparr>) [1, 3])
       = [0, 1, 3]"
  using insertion_ignores_buffer_max_size[where d = "sample_drone\<lparr>buffer := [0, 1]\<rparr>" and w = "sample_world ''GEO''"
      and cur_step = 20 and ev_id = 500 and pck_addr = 9 and sz = 512 and p = 3
      and packets = "[3]" and m = 2]
    insertion_ignores_buffer_max_size[where d = "sample_drone\<lparr>buffer := [0]\<rparr>" and w = "sample_world ''GEO''"
      and cur_step = 20 and ev_id = 500 and pck_addr = 9 and sz = 512 and p = 3
      and packets = "[1, 3]" and m = 1]
    insertion_ignores_buffer_max_size[where d = "sample_drone\<lparr>buffer := [0]\<rparr>" and w = "sample_world ''GEO''"
      and cur_step = 20 and ev_id = 500 and pck_addr = 9 and sz = 512 and p = 3
      and packets = "[1, 3]" and m = 5]
  by (simp add: is_known_packet_def Entity_eq_def is_full_def buffer_length_def sample_defs)

section \<open>Offloading\<close>

lemma transfer_loop_heap:
  "heap (transfer_loop cd step ps w)
   = (\<lambda>a. if a \<in> set ps then (heap w a)\<lparr>time_delivery := Some step\<rparr> else heap w a)"
  by (induction ps arbitrary: w) (auto simp: Let_def fun_eq_iff)

lemma transfer_loop_list:
  "drones_packets_to_depot_list (metrics (simulator (transfer_loop cd step ps w)))
   = drones_packets_to_depot_list (metrics (simulator w)) @ map (\<lambda>p. (p, step)) ps"
  by (induction ps arbitrary: w) (simp_all add: Let_def)

text \<open>
  C7. \<open>transfer_notified_packets\<close> appends the drone's buffer to the depot's log,
  stamps every packet of the buffer (and no other) with the step as its delivery time,
  appends one entry per packet to the chronological list, and returns the drone as it
  was. A second offload of the same buffer appends the packets and the entries again.
\<close>

theorem transfer_notified_packets_effect:
  "(case transfer_notified_packets w depot d step of
      (w1, depot1, d1) \<Rightarrow>
        Depot.buffer depot1 = Depot.buffer depot @ buffer d
        \<and> (\<forall>p \<in> set (buffer d). time_delivery (heap w1 p) = Some step)
        \<and> heap w1 = (\<lambda>a. if a \<in> set (buffer d) then (heap w a)\<lparr>time_delivery := Some step\<rparr>
                            else heap w a)
        \<and> drones_packets_to_depot_list (metrics (simulator w1))
            = drones_packets_to_depot_list (metrics (simulator w)) @ map (\<lambda>p. (p, step)) (buffer d)
        \<and> d1 = d
        \<and> (case transfer_notified_packets w1 depot1 d1 step2 of
              (w2, depot2, d2) \<Rightarrow>
                Depot.buffer depot2 = Depot.buffer depot @ buffer d @ buffer d
                \<and> drones_packets_to_depot_list (metrics (simulator w2))
                    = drones_packets_to_depot_list (metrics (simulator w))
                      @ map (\<lambda>p. (p, step)) (buffer d) @ map (\<lambda>p. (p, step2)) (buffer d)
                \<and> d2 = d))"
  by (simp add: transfer_notified_packets_def all_packets_def Let_def
      transfer_loop_heap transfer_loop_list)

theorem transfer_notified_packets_effect_witness:
  "(case transfer_notified_packets (sample_world ''GEO'') sample_depot (sample_drone\<lparr>buffer := [0, 1]\<rparr>) 30 of
      (w1, depot1, d1) \<Rightarrow>
        Depot.buffer depot1 = [0, 1]
        \<and> time_delivery (heap w1 0) = Some 30 \<and> time_delivery (heap w1 1) = Some 30
        \<and> time_delivery (heap w1 2) = None
        \<and> drones_packets_to_depot_list (metrics (simulator w1)) = [(0, 30), (1, 30)]
        \<and> buffer d1 = [0, 1]
        \<and> (case transfer_notified_packets w1 depot1 d1 31 of
              (w2, depot2, d2) \<Rightarrow>
                Depot.buffer depot2 = [0, 1, 0, 1]
                \<and> drones_packets_to_depot_list (metrics (simulator w2))
                    = [(0, 30), (1, 30), (0, 31), (1, 31)]))"
  using transfer_notified_packets_effect[where w = "sample_world ''GEO''" and depot = sample_depot
      and d = "sample_drone\<lparr>buffer := [0, 1]\<rparr>" and step = 30 and ?step2.0 = 31]
  by (simp add: sample_defs split: prod.splits)

section \<open>Movement and the abort branch\<close>

lemma euclidean_distance_nonneg: "0 \<le> euclidean_distance p0 p1"
  by (simp add: euclidean_distance_def)

lemma py_index_no_exit: "py_index xs i \<noteq> Inl (SystemExit n)"
  by (simp add: py_index_def)

lemma update_position_no_exit: "update_position d p \<noteq> Inl (SystemExit n)"
  by (auto simp: update_position_def Let_def py_index_def split: sum.splits if_splits)

lemma move_to_mission_never_exits:
  assumes "0 \<le> speed d" and "0 \<le> time"
  shows "move_to_mission d time \<noteq> Inl (SystemExit n)"
proof -
  have frac: "\<not> (time * s / a \<le> 0)" if "a \<noteq> 0" "time * s \<noteq> 0" "0 \<le> a" "0 \<le> s" for a s :: real
  proof -
    have "0 < a" using that by simp
    moreover have "0 < time * s" using that assms(2) by (simp add: less_le)
    ultimately have "0 < time * s / a" by simp
    then show ?thesis by simp
  qed
  show ?thesis
    using assms frac[OF _ _ euclidean_distance_nonneg]
    by (auto simp: move_to_mission_def Let_def update_position_no_exit py_index_def
        split: sum.splits option.splits if_splits)
qed

lemma move_to_depot_exits_iff:
  "move_to_depot depot d time = Inl (SystemExit 1)
   \<longleftrightarrow> euclidean_distance (coords d) (coords depot) \<noteq> 0 \<and> time * speed d \<le> 0"
proof -
  let ?a = "euclidean_distance (coords d) (coords depot)"
  have pos: "?a \<noteq> 0 \<Longrightarrow> 0 < ?a"
    using euclidean_distance_nonneg[of "coords d" "coords depot"] by simp
  have "?a \<noteq> 0 \<Longrightarrow> (time * speed d / ?a \<le> 0) = (time * speed d \<le> 0)"
    using pos by (simp add: divide_le_0_iff)
  moreover have "?a \<noteq> 0 \<Longrightarrow> time * speed d \<le> 0 \<Longrightarrow> \<not> 1 \<le> time * speed d / ?a"
    using pos by (simp add: pos_le_divide_eq)
  ultimately show ?thesis
    by (auto simp: move_to_depot_def Let_def)
qed

text \<open>
  C9. On the way to its mission a drone with non-negative speed and tick never
  exits (\<open>move_to_mission_never_exits\<close>): the guard returns before the division when
  the step is zero. On the way to the depot only the distance is guarded, and the
  branch \<^verbatim>\<open>t <= 0\<close> is taken exactly when the target is away and the step is not
  positive (\<open>move_to_depot_exits_iff\<close>): a drone with speed 0 at \<open>(0,0)\<close>, diverting to
  the depot at \<open>(3,4)\<close>, has the fraction 0 and leaves the run with \<^verbatim>\<open>exit(1)\<close>.
\<close>

theorem move_to_depot_exits_on_zero_speed:
  "0 \<le> speed (sample_drone\<lparr>speed := 0, move_routing := True\<rparr>)
   \<and> (0::real) \<le> 1
   \<and> 0 < euclidean_distance (coords (sample_drone\<lparr>speed := 0, move_routing := True\<rparr>)) (coords sample_depot)
   \<and> 1 * speed (sample_drone\<lparr>speed := 0, move_routing := True\<rparr>)
       / euclidean_distance (coords (sample_drone\<lparr>speed := 0, move_routing := True\<rparr>)) (coords sample_depot) = 0
   \<and> move_to_depot sample_depot (sample_drone\<lparr>speed := 0, move_routing := True\<rparr>) 1 = Inl (SystemExit 1)
   \<and> move (sample_world ''GEO'') sample_depot (sample_drone\<lparr>speed := 0, move_routing := True\<rparr>) 1
       = Inl (SystemExit 1)"
  by (simp add: move_def move_to_depot_def euclidean_distance_def Let_def sample_defs)

end
